theory Spec2Isabelle
  imports Main "HOL-Library.Char_ord" "HOL-Library.List_Lexorder"
begin

section \<open>Python values and exceptions\<close>

text \<open>
  Tool results, context variables and action outputs are dynamically typed
  (\<^verbatim>\<open>Any\<close>). They are modelled by the JSON-shaped values below; a \<^verbatim>\<open>dict\<close>
  is an association list in insertion order. A \<^verbatim>\<open>str\<close> is a \<^typ>\<open>string\<close>
  whose characters are the code points 0..255.

  \<open>pyexc\<close> models an instance of Python's \<^verbatim>\<open>Exception\<close>, the class that
  \<^verbatim>\<open>except Exception\<close> matches: its class name and its \<^verbatim>\<open>str()\<close>.
\<close>

datatype pyval =
    PNone
  | PBool bool
  | PInt int
  | PStr string
  | PList "pyval list"
  | PDict "(string \<times> pyval) list"

datatype pyexc = PyExc (exc_class: string) (exc_str: string)

type_synonym kwargs = "(string \<times> pyval) list"

text \<open>Truth value testing, as \<^verbatim>\<open>if x\<close> and \<^verbatim>\<open>not x\<close> do it.\<close>

fun truthy :: "pyval \<Rightarrow> bool" where
  "truthy PNone = False"
| "truthy (PBool b) = b"
| "truthy (PInt i) = (i \<noteq> 0)"
| "truthy (PStr s) = (s \<noteq> [])"
| "truthy (PList xs) = (xs \<noteq> [])"
| "truthy (PDict kvs) = (kvs \<noteq> [])"

fun type_name :: "pyval \<Rightarrow> string" where
  "type_name PNone = ''NoneType''"
| "type_name (PBool b) = ''bool''"
| "type_name (PInt i) = ''int''"
| "type_name (PStr s) = ''str''"
| "type_name (PList xs) = ''list''"
| "type_name (PDict kvs) = ''dict''"

text \<open>Decimal rendering of integers, for \<^verbatim>\<open>str()\<close> and f-strings.\<close>

definition digit_char :: "nat \<Rightarrow> char" where
  "digit_char d = ''0123456789'' ! (d mod 10)"

function show_nat :: "nat \<Rightarrow> string" where
  "show_nat n = (if n < 10 then [digit_char n] else show_nat (n div 10) @ [digit_char (n mod 10)])"
  by pat_completeness auto
termination
  by (relation "measure id") auto

declare show_nat.simps [simp del]

definition show_int :: "int \<Rightarrow> string" where
  "show_int i = (if i < 0 then CHR ''-'' # show_nat (nat (- i)) else show_nat (nat i))"

fun join :: "string \<Rightarrow> string list \<Rightarrow> string" where
  "join sep [] = []"
| "join sep [x] = x"
| "join sep (x # y # ys) = x @ sep @ join sep (y # ys)"

text \<open>
  \<^verbatim>\<open>repr\<close> of a \<^verbatim>\<open>str\<close>: double quotes when the text holds a single quote and
  no double quote, single quotes otherwise; the quote in use, the backslash,
  newline, carriage return and tab are escaped. (CPython also escapes the other
  non-printable characters; the rendering is exact on printable text.)
\<close>

definition repr_char :: "char \<Rightarrow> char \<Rightarrow> string" where
  "repr_char q c =
     (if c = CHR 0x5C then [CHR 0x5C, CHR 0x5C]
      else if c = q then [CHR 0x5C, q]
      else if c = CHR 0x0A then [CHR 0x5C, CHR ''n'']
      else if c = CHR 0x0D then [CHR 0x5C, CHR ''r'']
      else if c = CHR 0x09 then [CHR 0x5C, CHR ''t'']
      else [c])"

definition repr_str :: "string \<Rightarrow> string" where
  "repr_str s =
     (let q = (if CHR 0x27 \<in> set s \<and> CHR 0x22 \<notin> set s then CHR 0x22 else CHR 0x27)
      in q # concat (map (repr_char q) s) @ [q])"

fun py_repr :: "pyval \<Rightarrow> string" where
  "py_repr PNone = ''None''"
| "py_repr (PBool b) = (if b then ''True'' else ''False'')"
| "py_repr (PInt i) = show_int i"
| "py_repr (PStr s) = repr_str s"
| "py_repr (PList xs) = ''['' @ join '', '' (map py_repr xs) @ '']''"
| "py_repr (PDict kvs) =
     ''{'' @ join '', '' (map (\<lambda>kv. repr_str (fst kv) @ '': '' @ py_repr (snd kv)) kvs) @ ''}''"

text \<open>\<^verbatim>\<open>str(x)\<close>, which is also what \<^verbatim>\<open>f"{x}"\<close> inserts.\<close>

fun py_str :: "pyval \<Rightarrow> string" where
  "py_str (PStr s) = s"
| "py_str v = py_repr v"

definition quoted :: "string \<Rightarrow> string" where
  "quoted s = CHR 0x27 # s @ [CHR 0x27]"

text \<open>\<^verbatim>\<open>d.get(key, default)\<close> and \<^verbatim>\<open>d[key] = value\<close> on a dict.\<close>

definition dict_get :: "(string \<times> 'v) list \<Rightarrow> string \<Rightarrow> 'v \<Rightarrow> 'v" where
  "dict_get d k dflt = (case map_of d k of None \<Rightarrow> dflt | Some v \<Rightarrow> v)"

fun dict_set :: "(string \<times> 'v) list \<Rightarrow> string \<Rightarrow> 'v \<Rightarrow> (string \<times> 'v) list" where
  "dict_set [] k v = [(k, v)]"
| "dict_set ((k', v') # d) k v = (if k' = k then (k, v) # d else (k', v') # dict_set d k v)"

text \<open>
  \<^verbatim>\<open>x.get(key, default)\<close> on an arbitrary value: only a dict has the method.
\<close>

definition py_get :: "pyval \<Rightarrow> string \<Rightarrow> pyval \<Rightarrow> pyexc + pyval" where
  "py_get x k dflt =
     (case x of
        PDict kvs \<Rightarrow> Inr (dict_get kvs k dflt)
      | _ \<Rightarrow> Inl (PyExc ''AttributeError''
                 (quoted (type_name x) @ '' object has no attribute '' @ quoted ''get'')))"

text \<open>\<^verbatim>\<open>x[key]\<close> with a string key.\<close>

definition py_item :: "pyval \<Rightarrow> string \<Rightarrow> pyexc + pyval" where
  "py_item x k =
     (case x of
        PDict kvs \<Rightarrow>
          (case map_of kvs k of
             None \<Rightarrow> Inl (PyExc ''KeyError'' (repr_str k))
           | Some v \<Rightarrow> Inr v)
      | PStr s \<Rightarrow> Inl (PyExc ''TypeError'' (''string indices must be integers, not '' @ quoted ''str''))
      | PList xs \<Rightarrow> Inl (PyExc ''TypeError'' ''list indices must be integers or slices, not str'')
      | _ \<Rightarrow> Inl (PyExc ''TypeError'' (quoted (type_name x) @ '' object is not subscriptable'')))"

text \<open>\<^verbatim>\<open>x[0]\<close>. The keys of a modelled dict are strings, so \<open>0\<close> is never one.\<close>

definition py_first :: "pyval \<Rightarrow> pyexc + pyval" where
  "py_first x =
     (case x of
        PList xs \<Rightarrow>
          (case xs of [] \<Rightarrow> Inl (PyExc ''IndexError'' ''list index out of range'')
                    | y # ys \<Rightarrow> Inr y)
      | PStr s \<Rightarrow>
          (case s of [] \<Rightarrow> Inl (PyExc ''IndexError'' ''string index out of range'')
                   | c # cs \<Rightarrow> Inr (PStr [c]))
      | PDict kvs \<Rightarrow> Inl (PyExc ''KeyError'' ''0'')
      | _ \<Rightarrow> Inl (PyExc ''TypeError'' (quoted (type_name x) @ '' object is not subscriptable'')))"

section \<open>The action framework (backend/actions/base.py)\<close>

datatype ActionStatus = PENDING | RUNNING | SUCCESS | PARTIAL | FAILED | SKIPPED

fun status_value :: "ActionStatus \<Rightarrow> string" where
  "status_value PENDING = ''pending''"
| "status_value RUNNING = ''running''"
| "status_value SUCCESS = ''success''"
| "status_value PARTIAL = ''partial''"
| "status_value FAILED = ''failed''"
| "status_value SKIPPED = ''skipped''"

text \<open>
  Clock readings (\<^verbatim>\<open>time.perf_counter()\<close>, \<^verbatim>\<open>datetime.utcnow()\<close>) are integers
  read from the \<open>s_now\<close> component of the state below; a timestamp is the reading
  that its ISO rendering is made from. \<open>execution_id\<close> is the number of the
  \<^verbatim>\<open>uuid4()\<close> draw.
\<close>

record ToolCall =
  tool_name :: string
  arguments :: kwargs
  result :: pyval
  tc_error :: "string option"
  tc_duration_ms :: int
  tc_timestamp :: int

record ActionResult =
  action_name :: string
  status :: ActionStatus
  ar_output :: pyval
  error :: "string option"
  tool_calls :: "ToolCall list"
  duration_ms :: int
  execution_id :: nat
  timestamp :: int

record ActionContext =
  user_query :: string
  model_name :: string
  provider :: string
  session_id :: string
  variables :: "(string \<times> pyval) list"

text \<open>
  A tool is a callable taking keyword arguments. It returns a value or raises,
  and takes time: it is given the clock reading at the call and returns the
  reading at its return.
\<close>

type_synonym tool = "kwargs \<Rightarrow> int \<Rightarrow> (pyexc + pyval) \<times> int"

text \<open>
  The state of one \<^verbatim>\<open>Action\<close> object (\<^verbatim>\<open>_tools\<close>, \<^verbatim>\<open>_tool_calls\<close>,
  \<^verbatim>\<open>_start_time\<close>, \<^verbatim>\<open>_context\<close>) together with the environment it reads: the
  clock and the count of uuids drawn. The context object is passed by reference
  and mutated in place, so the state holds it.
\<close>

record astate =
  s_tools :: "(string \<times> tool) list"
  s_tool_calls :: "ToolCall list"
  s_start_time :: int
  s_context :: "ActionContext option"
  s_now :: int
  s_uuids :: nat

text \<open>
  A method of an action is a state transformer that returns a value or raises.
\<close>

type_synonym 'a act = "astate \<Rightarrow> (pyexc + 'a) \<times> astate"

definition returnA :: "'a \<Rightarrow> 'a act" where
  "returnA x s = (Inr x, s)"

definition raiseA :: "pyexc \<Rightarrow> 'a act" where
  "raiseA e s = (Inl e, s)"

definition bindA :: "'a act \<Rightarrow> ('a \<Rightarrow> 'b act) \<Rightarrow> 'b act" where
  "bindA m f s = (case m s of (Inl e, s') \<Rightarrow> (Inl e, s') | (Inr x, s') \<Rightarrow> f x s')"

definition liftE :: "pyexc + 'a \<Rightarrow> 'a act" where
  "liftE r s = (r, s)"

text \<open>\<^verbatim>\<open>ActionContext.set\<close> and \<^verbatim>\<open>ActionContext.get\<close>.\<close>

definition ctx_set :: "ActionContext \<Rightarrow> string \<Rightarrow> pyval \<Rightarrow> ActionContext" where
  "ctx_set c key v = c\<lparr>variables := dict_set (variables c) key v\<rparr>"

definition ctx_get :: "ActionContext \<Rightarrow> string \<Rightarrow> pyval \<Rightarrow> pyval" where
  "ctx_get c key dflt = dict_get (variables c) key dflt"

text \<open>
  \<^verbatim>\<open>context.set(...)\<close> and \<^verbatim>\<open>context.get(...)\<close> inside \<^verbatim>\<open>execute\<close>, on the context
  object that \<^verbatim>\<open>run\<close> was given. A \<^verbatim>\<open>None\<close> context has neither method.
\<close>

definition context_set :: "string \<Rightarrow> pyval \<Rightarrow> unit act" where
  "context_set key v s =
     (case s_context s of
        None \<Rightarrow> (Inl (PyExc ''AttributeError''
                    (quoted ''NoneType'' @ '' object has no attribute '' @ quoted ''set'')), s)
      | Some c \<Rightarrow> (Inr (), s\<lparr>s_context := Some (ctx_set c key v)\<rparr>))"

definition context_get :: "string \<Rightarrow> pyval \<Rightarrow> pyval act" where
  "context_get key dflt s =
     (case s_context s of
        None \<Rightarrow> (Inl (PyExc ''AttributeError''
                    (quoted ''NoneType'' @ '' object has no attribute '' @ quoted ''get'')), s)
      | Some c \<Rightarrow> (Inr (ctx_get c key dflt), s))"

text \<open>
  The message of the \<^verbatim>\<open>ValueError\<close> that \<^verbatim>\<open>call_tool\<close> raises for a name that
  is not a key of \<^verbatim>\<open>_tools\<close>.
\<close>

definition unknown_tool :: "string \<Rightarrow> string list \<Rightarrow> pyexc" where
  "unknown_tool name keys =
     PyExc ''ValueError''
       (''Unknown tool: '' @ name @ ''. Available: '' @ py_repr (PList (map PStr keys)))"

text \<open>
  \<^verbatim>\<open>Action.call_tool\<close>. \<open>json_loads\<close> is \<^verbatim>\<open>json.loads\<close> of the standard library,
  a parameter: \<open>Inl\<close> is the \<^verbatim>\<open>JSONDecodeError\<close> it raises on text that is not
  JSON. The \<^verbatim>\<open>finally\<close> block runs on both exits of the \<^verbatim>\<open>try\<close>: it sets the
  duration and appends the record. \<open>parse_result\<close> is the inner \<^verbatim>\<open>try\<close>: the value
  returned to the caller is the parsed document when the tool returned JSON text,
  and the tool's own value otherwise.
\<close>

definition parse_result :: "(string \<Rightarrow> pyexc + pyval) \<Rightarrow> pyval \<Rightarrow> pyval" where
  "parse_result json_loads res =
     (case res of
        PStr txt \<Rightarrow> (case json_loads txt of Inr v \<Rightarrow> v | Inl e \<Rightarrow> res)
      | _ \<Rightarrow> res)"

definition call_tool :: "(string \<Rightarrow> pyexc + pyval) \<Rightarrow> string \<Rightarrow> kwargs \<Rightarrow> pyval act" where
  "call_tool json_loads name kw s =
     (case map_of (s_tools s) name of
        None \<Rightarrow> (Inl (unknown_tool name (map fst (s_tools s))), s)
      | Some f \<Rightarrow>
          (let start = s_now s;
               tool_call = \<lparr>tool_name = name, arguments = kw, result = PNone, tc_error = None,
                            tc_duration_ms = 0, tc_timestamp = s_now s\<rparr>;
               (r, t) = f kw (s_now s)
           in case r of
                Inr res \<Rightarrow>
                  (let tool_call = tool_call\<lparr>result := res\<rparr>;
                       ret = parse_result json_loads res;
                       tool_call = tool_call\<lparr>tc_duration_ms := (t - start) * 1000\<rparr>
                   in (Inr ret, s\<lparr>s_now := t, s_tool_calls := s_tool_calls s @ [tool_call]\<rparr>))
              | Inl e \<Rightarrow>
                  (let tool_call = tool_call\<lparr>tc_error := Some (exc_str e)\<rparr>;
                       tool_call = tool_call\<lparr>tc_duration_ms := (t - start) * 1000\<rparr>
                   in (Inl e, s\<lparr>s_now := t, s_tool_calls := s_tool_calls s @ [tool_call]\<rparr>))))"

text \<open>\<^verbatim>\<open>Action.complete\<close> and \<^verbatim>\<open>Action.fail\<close>; \<open>nm\<close> is the class attribute \<^verbatim>\<open>name\<close>.\<close>

definition complete :: "string \<Rightarrow> pyval \<Rightarrow> ActionStatus \<Rightarrow> ActionResult act" where
  "complete nm out st s =
     (let duration = (s_now s - s_start_time s) * 1000
      in (Inr \<lparr>action_name = nm, status = st, ar_output = out, error = None,
               tool_calls = s_tool_calls s, duration_ms = duration,
               execution_id = s_uuids s, timestamp = s_now s\<rparr>,
          s\<lparr>s_uuids := Suc (s_uuids s)\<rparr>))"

definition fail :: "string \<Rightarrow> string \<Rightarrow> ActionResult act" where
  "fail nm err s =
     (let duration = (s_now s - s_start_time s) * 1000
      in (Inr \<lparr>action_name = nm, status = FAILED, ar_output = PNone, error = Some err,
               tool_calls = s_tool_calls s, duration_ms = duration,
               execution_id = s_uuids s, timestamp = s_now s\<rparr>,
          s\<lparr>s_uuids := Suc (s_uuids s)\<rparr>))"

text \<open>
  \<^verbatim>\<open>Action.run\<close>. \<open>execute\<close> is the subclass's method. The \<^verbatim>\<open>try\<close> block returns
  what \<^verbatim>\<open>execute\<close> returns; the \<^verbatim>\<open>except Exception\<close> handler returns
  \<^verbatim>\<open>self.fail(str(e))\<close>, evaluated in the state the exception left.
\<close>

definition run_start :: "ActionContext \<Rightarrow> astate \<Rightarrow> astate" where
  "run_start ctx s = s\<lparr>s_tool_calls := [], s_start_time := s_now s, s_context := Some ctx\<rparr>"

definition run :: "string \<Rightarrow> ActionResult act \<Rightarrow> ActionContext \<Rightarrow> ActionResult act" where
  "run nm execute ctx s =
     (case execute (run_start ctx s) of
        (Inr res, s1) \<Rightarrow> (Inr res, s1)
      | (Inl e, s1) \<Rightarrow> fail nm (exc_str e) s1)"

text \<open>
  \<^verbatim>\<open>ToolCall.to_dict\<close> and \<^verbatim>\<open>ActionResult.to_dict\<close>. The conditional expression for
  \<^verbatim>\<open>"result"\<close> calls \<^verbatim>\<open>json.loads\<close> outside any \<^verbatim>\<open>try\<close>.
\<close>

definition opt_str :: "string option \<Rightarrow> pyval" where
  "opt_str x = (case x of None \<Rightarrow> PNone | Some m \<Rightarrow> PStr m)"

definition startswith :: "string \<Rightarrow> string \<Rightarrow> bool" where
  "startswith s p = (take (length p) s = p)"

definition ToolCall_to_dict :: "(string \<Rightarrow> pyexc + pyval) \<Rightarrow> ToolCall \<Rightarrow> pyexc + pyval" where
  "ToolCall_to_dict json_loads tc =
     (case (case result tc of
              PStr txt \<Rightarrow> if startswith txt ''{'' then json_loads txt else Inr (PStr txt)
            | v \<Rightarrow> Inr v) of
        Inl e \<Rightarrow> Inl e
      | Inr r \<Rightarrow>
          Inr (PDict [(''tool_name'', PStr (tool_name tc)),
                      (''arguments'', PDict (arguments tc)),
                      (''result'', r),
                      (''error'', opt_str (tc_error tc)),
                      (''duration_ms'', PInt (tc_duration_ms tc)),
                      (''timestamp'', PInt (tc_timestamp tc))]))"

text \<open>A list comprehension whose element expression may raise: the first raise ends it.\<close>

fun map_raise :: "('a \<Rightarrow> pyexc + 'b) \<Rightarrow> 'a list \<Rightarrow> pyexc + 'b list" where
  "map_raise f [] = Inr []"
| "map_raise f (x # xs) =
     (case f x of
        Inl e \<Rightarrow> Inl e
      | Inr y \<Rightarrow> (case map_raise f xs of Inl e \<Rightarrow> Inl e | Inr ys \<Rightarrow> Inr (y # ys)))"

definition tools_used :: "ActionResult \<Rightarrow> string list" where
  "tools_used r = map tool_name (tool_calls r)"

definition ActionResult_to_dict :: "(string \<Rightarrow> pyexc + pyval) \<Rightarrow> ActionResult \<Rightarrow> pyexc + pyval" where
  "ActionResult_to_dict json_loads r =
     (case map_raise (ToolCall_to_dict json_loads) (tool_calls r) of
        Inl e \<Rightarrow> Inl e
      | Inr tcs \<Rightarrow>
          Inr (PDict [(''execution_id'', PInt (int (execution_id r))),
                      (''action_name'', PStr (action_name r)),
                      (''status'', PStr (status_value (status r))),
                      (''output'', ar_output r),
                      (''error'', opt_str (error r)),
                      (''tool_calls'', PList tcs),
                      (''tools_used'', PList (map PStr (tools_used r))),
                      (''duration_ms'', PInt (duration_ms r)),
                      (''timestamp'', PInt (timestamp r))]))"

text \<open>
  The invariant of the data model on results: Failed has an error and no output,
  Success has no error.
\<close>

definition result_ok :: "ActionResult \<Rightarrow> bool" where
  "result_ok r = ((status r = FAILED \<longrightarrow> error r \<noteq> None \<and> ar_output r = PNone)
                  \<and> (status r = SUCCESS \<longrightarrow> error r = None))"

section \<open>MeetingPrepAction (backend/actions/definitions.py)\<close>

text \<open>
  The second half of \<^verbatim>\<open>MeetingPrepAction.execute\<close>, from \<^verbatim>\<open>context.set("meeting", meeting)\<close>
  on; every branch of the first half that finds a meeting continues here.
\<close>

definition meeting_prep_rest :: "(string \<Rightarrow> pyexc + pyval) \<Rightarrow> pyval \<Rightarrow> ActionResult act" where
  "meeting_prep_rest json_loads meeting =
     bindA (context_set ''meeting'' meeting) (\<lambda>_.
     bindA (liftE (py_get meeting ''subject'' (PStr ''''))) (\<lambda>subject.
     bindA (call_tool json_loads ''search_emails'' [(''query'', subject), (''limit'', PInt 5)])
       (\<lambda>related_emails.
     bindA (liftE (py_get meeting ''organizer'' (PStr ''''))) (\<lambda>organizer_name.
     bindA (if truthy organizer_name
            then call_tool json_loads ''find_colleague'' [(''name'', organizer_name)]
            else returnA PNone) (\<lambda>organizer.
     bindA (liftE (py_get related_emails ''results'' (PList []))) (\<lambda>results.
     complete ''meeting_prep''
       (PDict [(''meeting'', meeting),
               (''related_emails'', results),
               (''organizer_info'', organizer),
               (''prep_notes'', PStr (''Meeting: '' @ py_str subject))])
       SUCCESS))))))"

text \<open>\<^verbatim>\<open>doc[key][0]\<close>.\<close>

definition first_of :: "pyval \<Rightarrow> string \<Rightarrow> pyval act" where
  "first_of doc key = bindA (liftE (py_item doc key)) (\<lambda>l. liftE (py_first l))"

definition MeetingPrepAction_execute :: "(string \<Rightarrow> pyexc + pyval) \<Rightarrow> ActionResult act" where
  "MeetingPrepAction_execute json_loads =
     bindA (context_get ''meeting_id'' PNone) (\<lambda>meeting_id.
       if \<not> truthy meeting_id then
         bindA (call_tool json_loads ''get_todays_meetings'' []) (\<lambda>today.
         bindA (liftE (py_get today ''meetings'' PNone)) (\<lambda>tm.
           if truthy tm then
             bindA (first_of today ''meetings'') (meeting_prep_rest json_loads)
           else
             bindA (call_tool json_loads ''get_calendar'' [(''days'', PInt 7)]) (\<lambda>calendar.
             bindA (liftE (py_get calendar ''meetings'' PNone)) (\<lambda>cm.
               if truthy cm then
                 bindA (first_of calendar ''meetings'') (meeting_prep_rest json_loads)
               else fail ''meeting_prep'' ''No upcoming meetings found''))))
       else
         bindA (call_tool json_loads ''search_meetings''
                  [(''query'', meeting_id), (''limit'', PInt 1)]) (\<lambda>meetings.
         bindA (liftE (py_get meetings ''results'' PNone)) (\<lambda>res.
           if \<not> truthy res then
             fail ''meeting_prep'' (''Meeting not found: '' @ py_str meeting_id)
           else
             bindA (first_of meetings ''results'') (meeting_prep_rest json_loads))))"

definition MeetingPrepAction_run :: "(string \<Rightarrow> pyexc + pyval) \<Rightarrow> ActionContext \<Rightarrow> ActionResult act" where
  "MeetingPrepAction_run json_loads = run ''meeting_prep'' (MeetingPrepAction_execute json_loads)"









section \<open>Bodies of execute as programs over the framework\<close>













section \<open>DailyBriefingAction: keyword extraction (backend/actions/definitions.py)\<close>

text \<open>
  Characters are code points below 256. On these \<^verbatim>\<open>str.lower()\<close> adds 32 to the
  upper-case letters (\<open>A\<close>..\<open>Z\<close>, and \<open>0xC0\<close>..\<open>0xDE\<close> without \<open>0xD7\<close>), that is, it
  sets bit 5; \<^verbatim>\<open>\w\<close> of the \<^verbatim>\<open>re\<close> module matches the digits, the letters, the
  underscore, and the letters and numeric signs of the upper half listed below.
\<close>

definition is_upper :: "char \<Rightarrow> bool" where
  "is_upper c = (let n = of_char c :: nat
                 in (65 \<le> n \<and> n \<le> 90) \<or> (192 \<le> n \<and> n \<le> 222 \<and> n \<noteq> 215))"

fun set_bit5 :: "char \<Rightarrow> char" where
  "set_bit5 (Char b0 b1 b2 b3 b4 b5 b6 b7) = Char b0 b1 b2 b3 b4 True b6 b7"

definition lower_char :: "char \<Rightarrow> char" where
  "lower_char c = (if is_upper c then set_bit5 c else c)"

definition lower :: "string \<Rightarrow> string" where
  "lower s = map lower_char s"

definition is_az :: "char \<Rightarrow> bool" where
  "is_az c = (let n = of_char c :: nat in 97 \<le> n \<and> n \<le> 122)"

definition is_word :: "char \<Rightarrow> bool" where
  "is_word c =
     (let n = of_char c :: nat
      in (48 \<le> n \<and> n \<le> 57) \<or> (65 \<le> n \<and> n \<le> 90) \<or> n = 95 \<or> (97 \<le> n \<and> n \<le> 122)
         \<or> n = 170 \<or> n = 178 \<or> n = 179 \<or> n = 181 \<or> n = 185 \<or> n = 186
         \<or> (188 \<le> n \<and> n \<le> 190) \<or> (192 \<le> n \<and> n \<le> 214)
         \<or> (216 \<le> n \<and> n \<le> 246) \<or> (248 \<le> n \<and> n \<le> 255))"

text \<open>
  \<^verbatim>\<open>re.findall(r'\b[a-z]{3,}\b', text)\<close>, scanning from the left. \<open>prev\<close> tells
  whether the character before the current position is a word character. A match
  can start only where \<^verbatim>\<open>\b\<close> holds before a letter, that is, after a non-word
  character or at the start; the greedy \<^verbatim>\<open>[a-z]{3,}\<close> takes the whole run of
  letters, and the closing \<^verbatim>\<open>\b\<close> holds only if the run ends the text or is
  followed by a non-word character (backtracking to a shorter run would end
  between two letters, where \<^verbatim>\<open>\b\<close> fails). After a match the scan goes on at its
  end; otherwise at the next character.
\<close>

function findall_words :: "bool \<Rightarrow> string \<Rightarrow> string list" where
  "findall_words prev [] = []"
| "findall_words prev (c # cs) =
     (if \<not> prev \<and> is_az c then
        (let run = takeWhile is_az (c # cs); rest = dropWhile is_az (c # cs)
         in if 3 \<le> length run \<and> (rest = [] \<or> \<not> is_word (hd rest))
            then run # findall_words True rest
            else findall_words (is_word c) cs)
      else findall_words (is_word c) cs)"
  by pat_completeness auto
termination
  by (relation "measure (\<lambda>(prev, s). length s)")
     (auto simp: le_imp_less_Suc length_dropWhile_le)

definition stopwords :: "string set" where
  "stopwords = set
     [''the'', ''a'', ''an'', ''and'', ''or'', ''but'', ''in'', ''on'', ''at'', ''to'', ''for'',
      ''of'', ''with'', ''by'', ''from'', ''as'', ''is'', ''was'', ''are'', ''were'', ''been'',
      ''be'', ''have'', ''has'', ''had'', ''do'', ''does'', ''did'', ''will'', ''would'',
      ''could'', ''should'', ''may'', ''might'', ''must'', ''shall'', ''can'', ''need'',
      ''meeting'', ''call'', ''sync'', ''discussion'', ''review'', ''update'', ''weekly'',
      ''monthly'', ''daily'', ''team'', ''group'', ''re'', ''fwd'', ''fw'']"

text \<open>The loop that filters and removes duplicates, with its two accumulators.\<close>

fun keyword_loop :: "string list \<Rightarrow> string list \<Rightarrow> string set \<Rightarrow> string list" where
  "keyword_loop [] keywords seen = keywords"
| "keyword_loop (word # words) keywords seen =
     (if word \<notin> stopwords \<and> word \<notin> seen
      then keyword_loop words (keywords @ [word]) (insert word seen)
      else keyword_loop words keywords seen)"

definition extract_keywords :: "string \<Rightarrow> string \<Rightarrow> string list" where
  "extract_keywords subject body =
     (let text = lower (subject @ '' '' @ body);
          words = findall_words False text
      in take 10 (keyword_loop words [] {}))"

text \<open>
  The extractor as the specification words it: the maximal runs of three or more
  letters of the lowered text, without the stopwords, each kept at its first
  occurrence, cut to ten.
\<close>

function letter_runs :: "string \<Rightarrow> string list" where
  "letter_runs [] = []"
| "letter_runs (c # cs) =
     (if is_az c then takeWhile is_az (c # cs) # letter_runs (dropWhile is_az (c # cs))
      else letter_runs cs)"
  by pat_completeness auto
termination
  by (relation "measure length") (auto simp: le_imp_less_Suc length_dropWhile_le)

fun first_occurrences :: "'a list \<Rightarrow> 'a list" where
  "first_occurrences [] = []"
| "first_occurrences (x # xs) = x # first_occurrences (removeAll x xs)"

definition spec_extract :: "string \<Rightarrow> string \<Rightarrow> string list" where
  "spec_extract subject body =
     take 10 (first_occurrences
       (filter (\<lambda>w. w \<notin> stopwords)
          (filter (\<lambda>w. 3 \<le> length w) (letter_runs (lower (subject @ '' '' @ body))))))"

text \<open>
  What the regular expression finds, said without scanning: the maximal runs of
  word characters that have three or more characters, all of them letters
  \<open>a\<close>..\<open>z\<close>.
\<close>

function word_runs :: "string \<Rightarrow> string list" where
  "word_runs [] = []"
| "word_runs (c # cs) =
     (if is_word c then takeWhile is_word (c # cs) # word_runs (dropWhile is_word (c # cs))
      else word_runs cs)"
  by pat_completeness auto
termination
  by (relation "measure length") (auto simp: le_imp_less_Suc length_dropWhile_le)

definition whole_words :: "string \<Rightarrow> string list" where
  "whole_words s = filter (\<lambda>w. 3 \<le> length w \<and> list_all is_az w) (word_runs s)"

section \<open>DailyBriefingAction: conflicts and alternative contributors\<close>

text \<open>
  Meetings and emails are the dicts that the tools return, read here at the type
  their fields have in the data model: times, subjects, bodies and names are
  \<^verbatim>\<open>str\<close>. A field is \<open>None\<close> when the key is absent, so that \<^verbatim>\<open>d.get(key, default)\<close>
  is \<open>field_or\<close>. An attendee is a dict, with or without a \<^verbatim>\<open>name\<close>, or another
  value, given by its \<^verbatim>\<open>str()\<close>; the sender of an email likewise.
\<close>

datatype attendee = AttendeeDict "string option" | AttendeeStr string


record meeting =
  m_subject :: "string option"
  m_start :: "string option"
  m_end :: "string option"
  m_body :: "string option"
  m_attendees :: "attendee list option"




text \<open>
  The entries of \<^verbatim>\<open>contributor_scores\<close>, a dict in insertion order keyed by the
  sender's name, and the candidates returned, whose topics are a list.
\<close>

record contributor =
  c_name :: string
  c_email :: string
  c_score :: nat
  c_topics :: "string set"







text \<open>
  \<^verbatim>\<open>contributor_scores[key]["score"] += n\<close> and the update of the topics, on the
  entry of \<open>key\<close>, which keeps its place in the dict.
\<close>

fun bump :: "(string \<times> contributor) list \<Rightarrow> string \<Rightarrow> nat \<Rightarrow> string set
               \<Rightarrow> (string \<times> contributor) list" where
  "bump [] key n ts = []"
| "bump ((k, c) # d) key n ts =
     (if k = key then (k, c\<lparr>c_score := c_score c + n, c_topics := c_topics c \<union> ts\<rparr>) # d
      else (k, c) # bump d key n ts)"










section \<open>The ranking of alternative contributors, as specified\<close>










section \<open>Sample inputs\<close>

text \<open>
  Concrete tools, states and contexts on which the theorems below are instantiated.
  \<open>json_loads_sample\<close> tabulates \<^verbatim>\<open>json.loads\<close> on the texts these samples use.
\<close>

definition json_loads_sample :: "string \<Rightarrow> pyexc + pyval" where
  "json_loads_sample txt =
     (if txt = ''{}'' then Inr (PDict [])
      else if txt = ''{name'' then
        Inl (PyExc ''JSONDecodeError''
               ''Expecting property name enclosed in double quotes: line 1 column 2 (char 1)'')
      else Inl (PyExc ''JSONDecodeError'' ''Expecting value: line 1 column 1 (char 0)''))"

definition sample_ctx :: ActionContext where
  "sample_ctx = \<lparr>user_query = ''prep'', model_name = ''m'', provider = ''p'',
                  session_id = ''s1'', variables = []\<rparr>"

definition sample_state :: "(string \<times> tool) list \<Rightarrow> astate" where
  "sample_state ts = \<lparr>s_tools = ts, s_tool_calls = [], s_start_time = 0, s_context = None,
                       s_now = 0, s_uuids = 0\<rparr>"

definition tool_returning :: "pyval \<Rightarrow> tool" where
  "tool_returning v kw t = (Inr v, t + 1)"

definition tool_raising :: "pyexc \<Rightarrow> tool" where
  "tool_raising e kw t = (Inl e, t + 1)"



definition tools_garbled :: "(string \<times> tool) list" where
  "tools_garbled =
     [(''get_todays_meetings'',
         tool_returning (PDict [(''meetings'',
           PList [PDict [(''subject'', PStr ''Budget''), (''organizer'', PStr ''Ann'')]])])),
      (''search_emails'', tool_returning (PDict [(''results'', PList [])])),
      (''find_colleague'', tool_returning (PStr ''{name''))]"

definition garbled_record :: ToolCall where
  "garbled_record = \<lparr>tool_name = ''find_colleague'', arguments = [(''name'', PStr ''Ann'')],
                      result = PStr ''{name'', tc_error = None, tc_duration_ms = 1000,
                      tc_timestamp = 2\<rparr>"






section \<open>Verified properties\<close>

subsection \<open>The run boundary and the tool invoker\<close>

lemmas act_defs = bindA_def returnA_def raiseA_def liftE_def context_get_def context_set_def
  ctx_get_def ctx_set_def call_tool_def parse_result_def complete_def fail_def run_def run_start_def
  py_get_def py_item_def py_first_def dict_get_def first_of_def
  MeetingPrepAction_run_def MeetingPrepAction_execute_def meeting_prep_rest_def
  sample_state_def sample_ctx_def tool_returning_def tool_raising_def json_loads_sample_def

lemma run_returns: "\<exists>r s'. run nm execute ctx s = (Inr r, s')"
  by (cases "execute (run_start ctx s)" rule: prod.exhaust; cases "fst (execute (run_start ctx s))")
     (auto simp: run_def fail_def split: sum.splits prod.splits)



text \<open>
  Claim C5. For a tool name that is not a key of the capability map, \<^verbatim>\<open>call_tool\<close>
  raises the \<^verbatim>\<open>ValueError\<close> for an unknown tool and leaves the whole state as it
  was: no tool is invoked, the clock is not advanced and the trace gets no record.
\<close>

theorem call_tool_unknown:
  assumes "name \<notin> set (map fst (s_tools s))"
  shows "call_tool json_loads name kw s = (Inl (unknown_tool name (map fst (s_tools s))), s)
         \<and> exc_class (unknown_tool name (map fst (s_tools s))) = ''ValueError''"
proof -
  from assms have "map_of (s_tools s) name = None"
    by (simp add: map_of_eq_None_iff)
  then show ?thesis
    by (simp add: call_tool_def unknown_tool_def)
qed

theorem call_tool_unknown_witness:
  "''read_email'' \<notin> set (map fst (s_tools (sample_state [(''whoami'', tool_returning PNone)])))
   \<and> call_tool json_loads_sample ''read_email'' [(''email_id'', PStr ''7'')]
        (sample_state [(''whoami'', tool_returning PNone)])
      = (Inl (PyExc ''ValueError'' (''Unknown tool: read_email. Available: ['' @ quoted ''whoami'' @ '']'')),
         sample_state [(''whoami'', tool_returning PNone)])"
  using call_tool_unknown [of "''read_email''" "sample_state [(''whoami'', tool_returning PNone)]"
          json_loads_sample "[(''email_id'', PStr ''7'')]"]
  by (simp add: sample_state_def unknown_tool_def repr_str_def repr_char_def quoted_def Let_def)

subsection \<open>The shape of results\<close>

text \<open>
  Claim C2 as stated fails at two inputs. \<^verbatim>\<open>complete\<close> takes the status from its
  caller, so \<^verbatim>\<open>complete(output, status=FAILED)\<close> is a Failed result with no error
  and with an output. And \<^verbatim>\<open>run\<close> stores \<^verbatim>\<open>str(e)\<close> as it is, so an exception
  raised without a message gives a Failed result whose error is the empty string.
\<close>

theorem failed_result_counterexample:
  "fst (complete ''meeting_prep'' (PStr ''partial notes'') FAILED (sample_state []))
     = Inr \<lparr>action_name = ''meeting_prep'', status = FAILED, ar_output = PStr ''partial notes'',
            error = None, tool_calls = [], duration_ms = 0, execution_id = 0, timestamp = 0\<rparr>
   \<and> fst (run ''meeting_prep'' (raiseA (PyExc ''RuntimeError'' [])) sample_ctx (sample_state []))
     = Inr \<lparr>action_name = ''meeting_prep'', status = FAILED, ar_output = PNone,
            error = Some [], tool_calls = [], duration_ms = 0, execution_id = 0, timestamp = 0\<rparr>"
  by (simp add: act_defs)

text \<open>
  Claim C2, amended. A result built by \<^verbatim>\<open>fail\<close> or by the catch boundary of \<^verbatim>\<open>run\<close>
  has status Failed, carries as error the message it was given (the \<^verbatim>\<open>str()\<close> of
  the exception, empty when that is empty), has no output, and carries the trace
  recorded so far. A result built by \<^verbatim>\<open>complete\<close> has the status its caller passed,
  no error, the output given and the trace recorded so far; it satisfies the
  invariant whenever the status passed is not Failed.
\<close>

theorem result_invariant:
  "(\<exists>r s'. fail nm msg s = (Inr r, s') \<and> status r = FAILED \<and> error r = Some msg
        \<and> ar_output r = PNone \<and> tool_calls r = s_tool_calls s \<and> result_ok r)
   \<and> (\<exists>r s'. complete nm out st s = (Inr r, s') \<and> status r = st \<and> error r = None
        \<and> ar_output r = out \<and> tool_calls r = s_tool_calls s
        \<and> (st \<noteq> FAILED \<longrightarrow> result_ok r))
   \<and> (\<forall>e s1. execute (run_start ctx s) = (Inl e, s1) \<longrightarrow>
        (\<exists>r s'. run nm execute ctx s = (Inr r, s') \<and> status r = FAILED
           \<and> error r = Some (exc_str e) \<and> ar_output r = PNone
           \<and> tool_calls r = s_tool_calls s1 \<and> result_ok r))"
  by (simp add: fail_def complete_def run_def result_ok_def)

theorem result_invariant_witness:
  "(\<exists>r s'. fail ''meeting_prep'' ''No upcoming meetings found'' (sample_state []) = (Inr r, s')
       \<and> status r = FAILED \<and> error r = Some ''No upcoming meetings found'' \<and> result_ok r)
   \<and> SUCCESS \<noteq> FAILED
   \<and> (\<exists>r s'. complete ''meeting_prep'' (PStr ''notes'') SUCCESS (sample_state []) = (Inr r, s')
       \<and> status r = SUCCESS \<and> error r = None \<and> result_ok r)
   \<and> raiseA (PyExc ''KeyError'' ''0'') (run_start sample_ctx (sample_state []))
       = (Inl (PyExc ''KeyError'' ''0''), run_start sample_ctx (sample_state []))
   \<and> (\<exists>r s'. run ''meeting_prep'' (raiseA (PyExc ''KeyError'' ''0'')) sample_ctx (sample_state [])
                = (Inr r, s') \<and> status r = FAILED \<and> error r = Some ''0'' \<and> result_ok r)"
  using result_invariant [of "''meeting_prep''" "''No upcoming meetings found''" "sample_state []"
          "PStr ''notes''" SUCCESS "raiseA (PyExc ''KeyError'' ''0'')" sample_ctx]
  by (auto simp: raiseA_def)

subsection \<open>Serialising a trace\<close>

lemma map_raise_Inl:
  "x \<in> set xs \<Longrightarrow> f x = Inl e \<Longrightarrow> \<exists>e'. map_raise f xs = Inl e'"
  by (induction xs) (auto split: sum.splits)

text \<open>
  Claim C10. \<^verbatim>\<open>ToolCall.to_dict\<close> raises on every record whose result is a string
  that starts with \<^verbatim>\<open>{\<close> and that \<^verbatim>\<open>json.loads\<close> rejects: the parse is outside any
  \<^verbatim>\<open>try\<close>. \<^verbatim>\<open>ActionResult.to_dict\<close> then raises on every result whose trace holds
  such a record. The record can be one of a tool call that succeeded, in a run that
  returned Success: \<^verbatim>\<open>call_tool\<close> keeps the raw text when its own guarded parse fails.
\<close>

theorem to_dict_raises:
  assumes "result tc = PStr txt" and "startswith txt ''{''" and "json_loads txt = Inl e"
  shows "ToolCall_to_dict json_loads tc = Inl e
         \<and> (tc \<in> set (tool_calls r) \<longrightarrow> (\<exists>e'. ActionResult_to_dict json_loads r = Inl e'))"
proof -
  have 1: "ToolCall_to_dict json_loads tc = Inl e"
    using assms by (simp add: ToolCall_to_dict_def)
  have "\<exists>e'. ActionResult_to_dict json_loads r = Inl e'" if "tc \<in> set (tool_calls r)"
  proof -
    from map_raise_Inl [of tc "tool_calls r" "ToolCall_to_dict json_loads" e] that 1 obtain e' where
      "map_raise (ToolCall_to_dict json_loads) (tool_calls r) = Inl e'" by blast
    then show ?thesis by (simp add: ActionResult_to_dict_def)
  qed
  with 1 show ?thesis by blast
qed

lemma garbled_run:
  "\<exists>r s'. MeetingPrepAction_run json_loads_sample sample_ctx (sample_state tools_garbled) = (Inr r, s')
     \<and> status r = SUCCESS \<and> error r = None \<and> map tc_error (tool_calls r) = [None, None, None]
     \<and> garbled_record \<in> set (tool_calls r)"
  by (simp add: act_defs tools_garbled_def garbled_record_def Let_def)

theorem to_dict_raises_witness:
  "\<exists>r s'. MeetingPrepAction_run json_loads_sample sample_ctx (sample_state tools_garbled) = (Inr r, s')
     \<and> status r = SUCCESS \<and> map tc_error (tool_calls r) = [None, None, None]
     \<and> (\<exists>e. ActionResult_to_dict json_loads_sample r = Inl e)"
proof -
  from garbled_run obtain r s' where
    r: "MeetingPrepAction_run json_loads_sample sample_ctx (sample_state tools_garbled) = (Inr r, s')"
       "status r = SUCCESS" "map tc_error (tool_calls r) = [None, None, None]"
       "garbled_record \<in> set (tool_calls r)"
    by (elim exE conjE)
  have a: "result garbled_record = PStr ''{name''" by (simp add: garbled_record_def)
  have b: "startswith ''{name'' ''{''" by (simp add: startswith_def)
  have c: "json_loads_sample ''{name'' = Inl (PyExc ''JSONDecodeError''
               ''Expecting property name enclosed in double quotes: line 1 column 2 (char 1)'')"
    by (simp add: json_loads_sample_def)
  from to_dict_raises [of garbled_record "''{name''" json_loads_sample _ r, OF a b c] r
  show ?thesis by auto
qed

subsection \<open>MeetingPrepAction when every tool succeeds\<close>













subsection \<open>The trace of a failed run\<close>















subsection \<open>Keyword extraction\<close>

lemmas kw_defs = extract_keywords_def lower_def lower_char_def is_upper_def is_az_def is_word_def
  stopwords_def Let_def

text \<open>
  Claim C8 as stated fails: \<open>discuss\<close> is not in the stopword set (\<open>discussion\<close>
  is), so the extractor keeps it.
\<close>

theorem spark_scenario_counterexample:
  "''discuss'' \<in> set (extract_keywords ''Re: Q3 Spark Pipeline Sync''
                         ''Discuss Spark optimization for the pipeline'')"
  by (simp add: kw_defs)

text \<open>
  Claim C8, amended. On this input the extractor drops \<open>sync\<close>, \<open>for\<close> and \<open>the\<close> as
  stopwords and never sees \<open>re\<close> and \<open>q3\<close> as tokens; it keeps \<open>discuss\<close>, which is
  not a stopword. The result is \<open>spark\<close>, \<open>pipeline\<close>, \<open>discuss\<close>, \<open>optimization\<close>,
  in first-seen order.
\<close>

theorem spark_scenario:
  "extract_keywords ''Re: Q3 Spark Pipeline Sync'' ''Discuss Spark optimization for the pipeline''
     = [''spark'', ''pipeline'', ''discuss'', ''optimization'']
   \<and> ''re'' \<in> stopwords \<and> ''sync'' \<in> stopwords \<and> ''discuss'' \<notin> stopwords
   \<and> ''discussion'' \<in> stopwords"
  by (simp add: kw_defs)

lemma is_az_word: "is_az c \<Longrightarrow> is_word c"
  by (auto simp: is_az_def is_word_def Let_def)

lemma whole_words_Nil [simp]: "whole_words [] = []"
  by (simp add: whole_words_def)

lemma whole_words_nonword: "\<not> is_word c \<Longrightarrow> whole_words (c # cs) = whole_words cs"
  by (simp add: whole_words_def)

lemma whole_words_word:
  "is_word c \<Longrightarrow> whole_words (c # cs) =
     (if 3 \<le> length (takeWhile is_word (c # cs)) \<and> list_all is_az (takeWhile is_word (c # cs))
      then [takeWhile is_word (c # cs)] else []) @ whole_words (dropWhile is_word cs)"
  by (simp add: whole_words_def)

lemma dropWhile_id: "xs = [] \<or> \<not> P (hd xs) \<Longrightarrow> dropWhile P xs = xs"
  by (cases xs) auto

lemma takeWhile_az_word:
  assumes "dropWhile is_az xs = [] \<or> \<not> is_word (hd (dropWhile is_az xs))"
  shows "takeWhile is_word xs = takeWhile is_az xs \<and> dropWhile is_word xs = dropWhile is_az xs"
  using assms
proof (induction xs)
  case Nil
  then show ?case by simp
next
  case (Cons x xs)
  then show ?case by (auto simp: is_az_word split: if_splits)
qed

lemma not_all_az:
  assumes "dropWhile is_az xs \<noteq> []" and "is_word (hd (dropWhile is_az xs))"
  shows "\<not> list_all is_az (takeWhile is_word xs)"
  using assms
proof (induction xs)
  case Nil
  then show ?case by simp
next
  case (Cons x xs)
  then show ?case by (auto simp: is_az_word split: if_splits)
qed

lemma findall_words_whole:
  "findall_words prev s = whole_words (if prev then dropWhile is_word s else s)"
proof (induction prev s rule: findall_words.induct)
  case (1 prev)
  then show ?case by simp
next
  case (2 prev c cs)
  show ?case
  proof (cases "\<not> prev \<and> is_az c")
    case False
    with 2 show ?thesis
      by (auto simp: whole_words_nonword whole_words_word is_az_word)
  next
    case True
    let ?run = "takeWhile is_az (c # cs)" and ?rest = "dropWhile is_az (c # cs)"
    from True have w: "is_word c" by (simp add: is_az_word)
    show ?thesis
    proof (cases "3 \<le> length ?run \<and> (?rest = [] \<or> \<not> is_word (hd ?rest))")
      case m: True
      then have e: "takeWhile is_word (c # cs) = ?run" "dropWhile is_word (c # cs) = ?rest"
        using takeWhile_az_word [of "c # cs"] by auto
      have az: "list_all is_az ?run"
        by (simp add: list_all_iff) (metis set_takeWhileD)
      from m have d: "dropWhile is_word ?rest = ?rest"
        by (intro dropWhile_id) auto
      have "findall_words prev (c # cs) = ?run # findall_words True ?rest"
        by (subst findall_words.simps) (simp only: True m Let_def if_True if_False simp_thms)
      also have "findall_words True ?rest = whole_words ?rest"
        using "2.IH"(1) [OF True refl refl] m d by simp
      finally show ?thesis
        using True w e az m whole_words_word [OF w, of cs] by (simp add: Let_def)
    next
      case n: False
      have f: "findall_words prev (c # cs) = findall_words True cs"
        by (subst findall_words.simps) (simp only: True n w Let_def if_True if_False simp_thms)
      have i: "findall_words True cs = whole_words (dropWhile is_word cs)"
        using "2.IH"(2) [OF True refl refl] n w by simp
      have bad: "\<not> (3 \<le> length (takeWhile is_word (c # cs))
                  \<and> list_all is_az (takeWhile is_word (c # cs)))"
      proof (cases "?rest = [] \<or> \<not> is_word (hd ?rest)")
        case True
        with takeWhile_az_word [of "c # cs"] have "takeWhile is_word (c # cs) = ?run" by auto
        with n True show ?thesis by auto
      next
        case False
        with not_all_az [of "c # cs"] show ?thesis by auto
      qed
      from f i bad True w whole_words_word [OF w, of cs] show ?thesis by simp
    qed
  qed
qed

lemma set_first_occurrences [simp]: "set (first_occurrences xs) = set xs"
  by (induction xs rule: first_occurrences.induct) auto

lemma distinct_first_occurrences [simp]: "distinct (first_occurrences xs)"
  by (induction xs rule: first_occurrences.induct) auto

lemma keyword_loop_eq:
  "keyword_loop ws acc (set acc) =
     acc @ first_occurrences (filter (\<lambda>w. w \<notin> stopwords \<and> w \<notin> set acc) ws)"
proof (induction ws arbitrary: acc)
  case Nil
  then show ?case by simp
next
  case (Cons w ws)
  show ?case
  proof (cases "w \<notin> stopwords \<and> w \<notin> set acc")
    case True
    have "removeAll w (filter (\<lambda>x. x \<notin> stopwords \<and> x \<notin> set acc) ws)
            = filter (\<lambda>x. x \<notin> stopwords \<and> x \<notin> set (acc @ [w])) ws"
      by (induction ws) auto
    with True Cons.IH [of "acc @ [w]"] show ?thesis by simp
  next
    case False
    with Cons.IH [of acc] show ?thesis by auto
  qed
qed

lemma extract_keywords_eq: "extract_keywords subject body
             = take 10 (first_occurrences (filter (\<lambda>w. w \<notin> stopwords)
                 (whole_words (lower (subject @ '' '' @ body)))))"
proof -
  have "keyword_loop (findall_words False (lower (subject @ '' '' @ body))) [] {}
        = first_occurrences (filter (\<lambda>w. w \<notin> stopwords)
            (findall_words False (lower (subject @ '' '' @ body))))"
    using keyword_loop_eq [of "findall_words False (lower (subject @ '' '' @ body))" "[]"]
    by simp
  then show ?thesis
    unfolding extract_keywords_def Let_def findall_words_whole by simp
qed

lemma extract_keywords_member:
  assumes "w \<in> set (extract_keywords subject body)"
  shows "3 \<le> length w \<and> list_all is_az w \<and> w \<notin> stopwords"
proof -
  let ?ws = "whole_words (lower (subject @ '' '' @ body))"
  from assms have "w \<in> set (take 10 (first_occurrences (filter (\<lambda>w. w \<notin> stopwords) ?ws)))"
    by (simp only: extract_keywords_eq)
  then have "w \<in> set (first_occurrences (filter (\<lambda>w. w \<notin> stopwords) ?ws))"
    by (rule in_set_takeD)
  then have "w \<in> set ?ws" "w \<notin> stopwords"
    by simp_all
  then show ?thesis
    unfolding whole_words_def by simp
qed

text \<open>
  Claim C7, amended. \<^verbatim>\<open>extract(subject, body)\<close> lowers the subject and the body joined
  by one space, takes as tokens the maximal runs of word characters (letters,
  digits, underscore) that have three or more characters and consist of the
  letters \<open>a\<close>..\<open>z\<close> only, drops the stopwords, keeps each term at its first
  occurrence and cuts the list to ten. The result has at most ten terms, without
  repetition, each of three or more lower-case letters and none a stopword. Being
  a function of the two texts, it is the same for the same input.
\<close>

theorem extract_keywords_spec:
  "extract_keywords subject body =
     take 10 (first_occurrences
       (filter (\<lambda>w. w \<notin> stopwords) (whole_words (lower (subject @ '' '' @ body)))))
   \<and> length (extract_keywords subject body) \<le> 10
   \<and> distinct (extract_keywords subject body)
   \<and> (\<forall>w \<in> set (extract_keywords subject body).
         3 \<le> length w \<and> list_all is_az w \<and> w \<notin> stopwords)"
proof (intro conjI ballI)
  show "extract_keywords subject body =
     take 10 (first_occurrences
       (filter (\<lambda>w. w \<notin> stopwords) (whole_words (lower (subject @ '' '' @ body)))))"
    by (rule extract_keywords_eq)
  show "length (extract_keywords subject body) \<le> 10"
    by (simp only: extract_keywords_eq length_take min.cobounded2)
  show "distinct (extract_keywords subject body)"
    by (simp only: extract_keywords_eq distinct_take distinct_first_occurrences)
next
  fix w assume "w \<in> set (extract_keywords subject body)"
  from extract_keywords_member [OF this] show "3 \<le> length w" "list_all is_az w" "w \<notin> stopwords" by simp_all
qed

text \<open>
  Claim C7 as stated fails on the tokens. The regular expression asks for a word
  boundary on both sides of a run of letters, so a run that touches a digit or an
  underscore is no token: \<open>spark2\<close> gives nothing, where the runs of three or more
  letters would give \<open>spark\<close>.
\<close>

theorem extract_keywords_counterexample:
  "extract_keywords ''spark2 pipeline'' [] = [''pipeline'']
   \<and> spec_extract ''spark2 pipeline'' [] = [''spark'', ''pipeline'']"
  by (simp add: spec_extract_def kw_defs)

lemma oauth_keywords: "extract_keywords ''OAuth2 rollout: Review'' ''rollout plan for oauth2 and sso_login''
     = [''rollout'', ''plan'']"
  by (simp add: kw_defs)

lemma oauth_words: "whole_words (lower (''OAuth2 rollout: Review'' @ '' '' @ ''rollout plan for oauth2 and sso_login''))
     = [''rollout'', ''review'', ''rollout'', ''plan'', ''for'', ''and'']"
  by (simp add: whole_words_def lower_def lower_char_def is_upper_def is_az_def is_word_def Let_def)

theorem extract_keywords_spec_witness:
  "extract_keywords ''OAuth2 rollout: Review'' ''rollout plan for oauth2 and sso_login''
     = take 10 (first_occurrences (filter (\<lambda>w. w \<notin> stopwords)
         [''rollout'', ''review'', ''rollout'', ''plan'', ''for'', ''and'']))
   \<and> extract_keywords ''OAuth2 rollout: Review'' ''rollout plan for oauth2 and sso_login''
     = [''rollout'', ''plan'']
   \<and> length [''rollout'', ''plan''] \<le> (10 :: nat)
   \<and> distinct [''rollout'', ''plan'']
   \<and> list_all (\<lambda>w. 3 \<le> length w \<and> list_all is_az w \<and> w \<notin> stopwords) [''rollout'', ''plan'']"
proof -
  note t = extract_keywords_spec [of "''OAuth2 rollout: Review''" "''rollout plan for oauth2 and sso_login''",
      unfolded oauth_words]
  from t have e: "extract_keywords ''OAuth2 rollout: Review'' ''rollout plan for oauth2 and sso_login''
     = take 10 (first_occurrences (filter (\<lambda>w. w \<notin> stopwords)
         [''rollout'', ''review'', ''rollout'', ''plan'', ''for'', ''and'']))"
    by (rule conjunct1)
  from t have l: "length (extract_keywords ''OAuth2 rollout: Review'' ''rollout plan for oauth2 and sso_login'') \<le> 10"
    by (elim conjE)
  from t have d: "distinct (extract_keywords ''OAuth2 rollout: Review'' ''rollout plan for oauth2 and sso_login'')"
    by (elim conjE)
  from t have a: "\<forall>w \<in> set (extract_keywords ''OAuth2 rollout: Review'' ''rollout plan for oauth2 and sso_login'').
         3 \<le> length w \<and> list_all is_az w \<and> w \<notin> stopwords"
    by (elim conjE)
  have a': "list_all (\<lambda>w. 3 \<le> length w \<and> list_all is_az w \<and> w \<notin> stopwords) [''rollout'', ''plan'']"
    using a unfolding oauth_keywords by (simp only: list_all_iff)
  show ?thesis
    by (intro conjI) (rule e oauth_keywords l [unfolded oauth_keywords] d [unfolded oauth_keywords] a')+
qed

subsection \<open>Conflict detection\<close>






subsection \<open>Alternative contributors\<close>



lemma map_fst_bump [simp]: "map fst (bump d key n ts) = map fst d"
  by (induction d key n ts rule: bump.induct) auto


























end
